theory Spec2Isabelle
  imports Complex_Main
begin

section \<open>JavaScript values of src/App.js\<close>

text \<open>
  A JavaScript number is modelled as an exact rational, or one of the three non-finite
  values. IEEE-754 rounding of the arithmetic and the sign of zero are not represented:
  \<open>+\<close>, \<open>/\<close> and \<open>Math.abs\<close> compute exactly on finite values.
\<close>

datatype jsnum = Fin rat | NaN | PosInf | NegInf

datatype jsval = JUndefined | JNull | JBool bool | JNum jsnum | JStr string

text \<open>
  \<open>Number(v)\<close>. The conversion of a string is the runtime's \<open>StringToNumber\<close>; it is
  a parameter of the model.
\<close>

fun Number :: "(string \<Rightarrow> jsnum) \<Rightarrow> jsval \<Rightarrow> jsnum" where
  "Number StringToNumber JUndefined = NaN"
| "Number StringToNumber JNull = Fin 0"
| "Number StringToNumber (JBool b) = (if b then Fin 1 else Fin 0)"
| "Number StringToNumber (JNum n) = n"
| "Number StringToNumber (JStr s) = StringToNumber s"

text \<open>Truthiness of a number: \<open>NaN\<close> and zero are falsy.\<close>

fun truthy :: "jsnum \<Rightarrow> bool" where
  "truthy (Fin r) = (r \<noteq> 0)"
| "truthy NaN = False"
| "truthy PosInf = True"
| "truthy NegInf = True"

text \<open>\<open>a + b\<close> on numbers.\<close>

fun js_add :: "jsnum \<Rightarrow> jsnum \<Rightarrow> jsnum" where
  "js_add NaN _ = NaN"
| "js_add _ NaN = NaN"
| "js_add (Fin a) (Fin b) = Fin (a + b)"
| "js_add (Fin a) PosInf = PosInf"
| "js_add (Fin a) NegInf = NegInf"
| "js_add PosInf (Fin b) = PosInf"
| "js_add NegInf (Fin b) = NegInf"
| "js_add PosInf PosInf = PosInf"
| "js_add NegInf NegInf = NegInf"
| "js_add PosInf NegInf = NaN"
| "js_add NegInf PosInf = NaN"

text \<open>\<open>-a\<close> and \<open>Math.abs(a)\<close>.\<close>

fun js_neg :: "jsnum \<Rightarrow> jsnum" where
  "js_neg (Fin a) = Fin (- a)"
| "js_neg NaN = NaN"
| "js_neg PosInf = NegInf"
| "js_neg NegInf = PosInf"

fun js_abs :: "jsnum \<Rightarrow> jsnum" where
  "js_abs (Fin a) = Fin \<bar>a\<bar>"
| "js_abs NaN = NaN"
| "js_abs PosInf = PosInf"
| "js_abs NegInf = PosInf"

text \<open>\<open>a > b\<close> and \<open>a >= b\<close>: every comparison with \<open>NaN\<close> is false.\<close>

fun js_gt :: "jsnum \<Rightarrow> jsnum \<Rightarrow> bool" where
  "js_gt NaN _ = False"
| "js_gt _ NaN = False"
| "js_gt (Fin a) (Fin b) = (a > b)"
| "js_gt PosInf PosInf = False"
| "js_gt PosInf _ = True"
| "js_gt _ PosInf = False"
| "js_gt NegInf _ = False"
| "js_gt _ NegInf = True"

fun js_ge :: "jsnum \<Rightarrow> jsnum \<Rightarrow> bool" where
  "js_ge NaN _ = False"
| "js_ge _ NaN = False"
| "js_ge (Fin a) (Fin b) = (a \<ge> b)"
| "js_ge PosInf _ = True"
| "js_ge _ NegInf = True"
| "js_ge NegInf _ = False"
| "js_ge _ PosInf = False"


section \<open>Dates\<close>

text \<open>
  A dayjs object is an instant, in milliseconds on the local wall clock (the UTC offset
  is taken as fixed), or the invalid date that \<open>dayjs\<close> makes of an unparsable input.
  An invalid date is an object, hence truthy; every comparison with it is false and every
  difference is \<open>NaN\<close>.
\<close>

datatype dayjs = Valid int | Invalid

definition MILLISECONDS_A_DAY :: int where
  "MILLISECONDS_A_DAY = 86400000"









text \<open>
  A period is the two-element array of the source, or \<open>null\<close>/\<open>undefined\<close>
  (\<open>None\<close>); each bound is a dayjs object or \<open>null\<close> (\<open>None\<close>).
\<close>

type_synonym period = "(dayjs option \<times> dayjs option) option"


text \<open>
  The calendar of \<open>startOf("month")\<close> and \<open>endOf("month")\<close>: the proleptic Gregorian
  date of a day number (days since 1970-01-01), as year, month (1 to 12) and day.
\<close>

definition civil_from_days :: "int \<Rightarrow> int \<times> int \<times> int" where
  "civil_from_days n =
     (let z = n + 719468;
          era = z div 146097;
          doe = z - era * 146097;
          yoe = (doe - doe div 1460 + doe div 36524 - doe div 146096) div 365;
          doy = doe - (365 * yoe + yoe div 4 - yoe div 100);
          mp = (5 * doy + 2) div 153;
          d = doy - (153 * mp + 2) div 5 + 1;
          m = (if mp < 10 then mp + 3 else mp - 9);
          y = yoe + era * 400 + (if m \<le> 2 then 1 else 0)
      in (y, m, d))"

definition daysInMonth :: "int \<Rightarrow> int \<Rightarrow> int" where
  "daysInMonth y m =
     (if m = 2 then (if y mod 4 = 0 \<and> (y mod 100 \<noteq> 0 \<or> y mod 400 = 0) then 29 else 28)
      else if m = 4 \<or> m = 6 \<or> m = 9 \<or> m = 11 then 30 else 31)"

definition startOfMonth :: "int \<Rightarrow> int" where
  "startOfMonth t =
     (let n = t div MILLISECONDS_A_DAY; (y, m, d) = civil_from_days n
      in (n - (d - 1)) * MILLISECONDS_A_DAY)"

definition endOfMonth :: "int \<Rightarrow> int" where
  "endOfMonth t =
     (let n = t div MILLISECONDS_A_DAY; (y, m, d) = civil_from_days n
      in (n - (d - 1) + daysInMonth y m) * MILLISECONDS_A_DAY - 1)"

text \<open>\<open>defaultPeriod()\<close>: the current month, read from the clock \<open>now\<close>.\<close>

definition defaultPeriod :: "int \<Rightarrow> period" where
  "defaultPeriod now = Some (Some (Valid (startOfMonth now)), Some (Valid (endOfMonth now)))"

section \<open>The runtime the program runs on\<close>

text \<open>
  Three functions of the JavaScript runtime and of dayjs are parameters of the model:
  the conversion of a string to a number, \<open>toISOString\<close> of a valid instant, and
  \<open>dayjs(s)\<close> of a string.
\<close>

record runtime =
  StringToNumber :: "string \<Rightarrow> jsnum"
  toISOString :: "int \<Rightarrow> string"
  dayjs_of_string :: "string \<Rightarrow> dayjs"

datatype error = RangeError

text \<open>\<open>d.toISOString()\<close> throws a \<open>RangeError\<close> on an invalid date.\<close>

fun dayjs_toISOString :: "runtime \<Rightarrow> dayjs \<Rightarrow> error + string" where
  "dayjs_toISOString rt (Valid t) = Inr (toISOString rt t)"
| "dayjs_toISOString rt Invalid = Inl RangeError"

text \<open>\<open>toISOPeriod(period)\<close>: \<open>null\<close> (\<open>None\<close>) or the two strings.\<close>

definition toISOPeriod :: "runtime \<Rightarrow> period \<Rightarrow> error + (string \<times> string) option" where
  "toISOPeriod rt period =
     (case period of
        None \<Rightarrow> Inr None
      | Some (None, _) \<Rightarrow> Inr None
      | Some (Some p0, None) \<Rightarrow> Inr None
      | Some (Some p0, Some p1) \<Rightarrow>
          (case dayjs_toISOString rt p0 of
             Inl e \<Rightarrow> Inl e
           | Inr s0 \<Rightarrow>
               (case dayjs_toISOString rt p1 of
                  Inl e \<Rightarrow> Inl e
                | Inr s1 \<Rightarrow> Inr (Some (s0, s1)))))"

text \<open>
  The period of a stored record: absent or \<open>null\<close> (\<open>None\<close>), or an array whose
  elements are strings or missing (\<open>None\<close>). The empty string is falsy.
\<close>

type_synonym iso_period = "(string option \<times> string option) option"

fun falsy_string :: "string option \<Rightarrow> bool" where
  "falsy_string None = True"
| "falsy_string (Some s) = (s = [])"

text \<open>\<open>fromISOPeriod(iso)\<close>.\<close>

definition fromISOPeriod :: "runtime \<Rightarrow> int \<Rightarrow> iso_period \<Rightarrow> period" where
  "fromISOPeriod rt now isoP =
     (case isoP of
        None \<Rightarrow> defaultPeriod now
      | Some (i0, i1) \<Rightarrow>
          (if falsy_string i0 \<or> falsy_string i1 then defaultPeriod now
           else (case (i0, i1) of
                   (Some s0, Some s1) \<Rightarrow>
                     Some (Some (dayjs_of_string rt s0), Some (dayjs_of_string rt s1))
                 | _ \<Rightarrow> defaultPeriod now)))"

section \<open>Derived values\<close>

text \<open>A number or \<open>undefined\<close> as operand of arithmetic: \<open>undefined\<close> converts to \<open>NaN\<close>.\<close>

fun operand :: "jsnum option \<Rightarrow> jsnum" where
  "operand None = NaN"
| "operand (Some n) = n"




section \<open>The state of AppProvider\<close>

record transaction =
  txid :: string
  dateISO :: string
  txtype :: string
  amount :: jsnum
  reason :: string

text \<open>The four \<open>useState\<close> cells; \<open>balance\<close> is a number or \<open>undefined\<close> (\<open>None\<close>).\<close>

record state =
  balance :: "jsnum option"
  transactions :: "transaction list"
  period :: period
  hydrated :: bool

definition initialState :: "int \<Rightarrow> state" where
  "initialState now =
     \<lparr>balance = None, transactions = [], period = defaultPeriod now, hydrated = False\<rparr>"

text \<open>
  The two notifications: \<open>message.success\<close> of a transaction, with its sign, its
  magnitude and the bracketed reason, and \<open>message.info\<close> of the reset.
\<close>

datatype message = TransactionMsg string jsnum string | ResetMsg

text \<open>
  What a handler does: the state it leaves, whether a dependency of the persist effect
  (\<open>balance\<close>, \<open>transactions\<close>, \<open>period\<close>, \<open>hydrated\<close>) has a new value or a new
  array, and the notifications it shows.
\<close>

record outcome =
  next_state :: state
  rerender :: bool
  emitted :: "message list"

section \<open>Handlers\<close>

text \<open>\<open>s.trim()\<close>, on the white space of the Latin-1 range.\<close>

definition white_space :: "char \<Rightarrow> bool" where
  "white_space c = (of_char c \<in> {9, 10, 11, 12, 13, 32, 160 :: nat})"

definition trim :: "string \<Rightarrow> string" where
  "trim s = rev (dropWhile white_space (rev (dropWhile white_space s)))"

text \<open>
  \<open>addTransaction(rawAmount, reason)\<close>. The identifier made by \<open>newTxnId()\<close> and the
  time stamp of \<open>new Date().toISOString()\<close> come from the environment; \<open>reason\<close> is a
  string, or \<open>undefined\<close>/\<open>null\<close> (\<open>None\<close>).
\<close>

definition addTransaction ::
  "runtime \<Rightarrow> string \<Rightarrow> string \<Rightarrow> jsval \<Rightarrow> string option \<Rightarrow> state \<Rightarrow> outcome" where
  "addTransaction rt newTxnId nowISO rawAmount reasonArg st =
     (let n = Number (StringToNumber rt) rawAmount;
          amt = (if truthy n then n else Fin 0)
      in if \<not> truthy amt then \<lparr>next_state = st, rerender = False, emitted = []\<rparr>
         else
           (let ty = (if js_ge amt (Fin 0) then ''add'' else ''sub'');
                signed = amt;
                trimmed = map_option trim reasonArg;
                next = \<lparr>txid = newTxnId, dateISO = nowISO, txtype = ty,
                        amount = js_abs signed,
                        reason = (case trimmed of None \<Rightarrow> [] | Some r \<Rightarrow> if r = [] then [] else r)\<rparr>
            in \<lparr>next_state = st\<lparr>balance := Some (js_add (operand (balance st)) signed),
                                  transactions := next # transactions st\<rparr>,
                rerender = True,
                emitted = [TransactionMsg (if txtype next = ''add'' then ''+'' else ''-'')
                             (js_abs amt)
                             (if reason next \<noteq> [] then '' ('' @ reason next @ '')'' else [])]\<rparr>))"

text \<open>\<open>resetAll()\<close>.\<close>

definition resetAll :: "int \<Rightarrow> state \<Rightarrow> outcome" where
  "resetAll now st =
     \<lparr>next_state = st\<lparr>balance := None, transactions := [], period := defaultPeriod now\<rparr>,
      rerender = True,
      emitted = [ResetMsg]\<rparr>"

text \<open>
  \<open>handleSave()\<close> of \<open>BalanceInput\<close>, on the \<open>value\<close> the input holds:
  \<open>setBalance(Number(value) || undefined)\<close>. React renders again only when the new
  balance is not the old one.
\<close>

definition handleSave :: "runtime \<Rightarrow> jsval \<Rightarrow> state \<Rightarrow> outcome" where
  "handleSave rt v st =
     (let n = Number (StringToNumber rt) v;
          b = (if truthy n then Some n else None)
      in \<lparr>next_state = st\<lparr>balance := b\<rparr>, rerender = (b \<noteq> balance st), emitted = []\<rparr>)"

text \<open>The \<open>onChange\<close> of the range picker in \<open>PeriodSelector\<close>.\<close>

definition onChange :: "int \<Rightarrow> period \<Rightarrow> state \<Rightarrow> outcome" where
  "onChange now vals st =
     (case vals of
        Some (Some v0, Some v1) \<Rightarrow>
          \<lparr>next_state = st\<lparr>period := vals\<rparr>, rerender = True, emitted = []\<rparr>
      | _ \<Rightarrow> \<lparr>next_state = st\<lparr>period := defaultPeriod now\<rparr>, rerender = True, emitted = []\<rparr>)"

text \<open>
  \<open>onAdd\<close> and \<open>onSub\<close> of \<open>BalanceControls\<close>, on the \<open>amount\<close> and the
  \<open>reason\<close> the two inputs hold.
\<close>

definition onAdd :: "runtime \<Rightarrow> string \<Rightarrow> string \<Rightarrow> jsval \<Rightarrow> string \<Rightarrow> state \<Rightarrow> outcome" where
  "onAdd rt newTxnId nowISO amountV reasonV st =
     addTransaction rt newTxnId nowISO (JNum (Number (StringToNumber rt) amountV)) (Some reasonV) st"

definition onSub :: "runtime \<Rightarrow> string \<Rightarrow> string \<Rightarrow> jsval \<Rightarrow> string \<Rightarrow> state \<Rightarrow> outcome" where
  "onSub rt newTxnId nowISO amountV reasonV st =
     addTransaction rt newTxnId nowISO (JNum (js_neg (Number (StringToNumber rt) amountV)))
       (Some reasonV) st"

section \<open>Storage, hydration and persistence\<close>

text \<open>
  The record under the key \<open>"state"\<close>. Its fields may hold anything: \<open>balance\<close> is a
  value, \<open>transactions\<close> is an array (\<open>Some\<close>) or not.
\<close>

record saved =
  saved_balance :: jsval
  saved_transactions :: "transaction list option"
  saved_period :: iso_period

text \<open>\<open>loadState()\<close> rejects, or resolves to the record or to \<open>null\<close>.\<close>

datatype load_result = LoadFailed | Loaded "saved option"

text \<open>The hydrate effect, once \<open>loadState()\<close> has settled.\<close>

definition hydrate :: "runtime \<Rightarrow> int \<Rightarrow> load_result \<Rightarrow> state \<Rightarrow> state" where
  "hydrate rt now res st =
     (let st1 =
        (case res of
           Loaded (Some sv) \<Rightarrow>
             (let a = (case saved_balance sv of JNum n \<Rightarrow> st\<lparr>balance := Some n\<rparr> | _ \<Rightarrow> st);
                  b = (case saved_transactions sv of
                         Some txs \<Rightarrow> a\<lparr>transactions := txs\<rparr> | None \<Rightarrow> a)
              in (case saved_period sv of
                    Some isoP \<Rightarrow> b\<lparr>period := fromISOPeriod rt now (Some isoP)\<rparr>
                  | None \<Rightarrow> b))
         | _ \<Rightarrow> st)
      in st1\<lparr>hydrated := True\<rparr>)"

text \<open>The object the persist effect hands to \<open>saveState\<close>.\<close>

definition snapshot :: "runtime \<Rightarrow> state \<Rightarrow> error + saved" where
  "snapshot rt st =
     (case toISOPeriod rt (period st) of
        Inl e \<Rightarrow> Inl e
      | Inr p \<Rightarrow>
          Inr \<lparr>saved_balance = (case balance st of None \<Rightarrow> JUndefined | Some n \<Rightarrow> JNum n),
               saved_transactions = Some (transactions st),
               saved_period = (case p of None \<Rightarrow> None | Some (s0, s1) \<Rightarrow> Some (Some s0, Some s1))\<rparr>)"

text \<open>
  The running program: the state of the provider, the notifications shown, the calls of
  \<open>saveState\<close> issued (latest first), the record in the store, and the error that
  escaped an effect, if one has.
\<close>

record world =
  app :: state
  messages :: "message list"
  saves :: "saved list"
  storage :: "saved option"
  crashed :: "error option"

text \<open>
  The persist effect. \<open>put_ok\<close> tells whether the write reaches the store; a failed
  write is swallowed by \<open>catch\<close>.
\<close>

definition persist :: "runtime \<Rightarrow> bool \<Rightarrow> world \<Rightarrow> world" where
  "persist rt put_ok w =
     (if \<not> hydrated (app w) then w
      else (case snapshot rt (app w) of
              Inl e \<Rightarrow> w\<lparr>crashed := Some e\<rparr>
            | Inr sv \<Rightarrow>
                w\<lparr>saves := sv # saves w,
                  storage := (if put_ok then Some sv else storage w)\<rparr>))"

text \<open>
  What happens to the program: the page is loaded (again), \<open>loadState()\<close> settles
  (with the stored record or with a failure), or the user acts.
\<close>

datatype event =
    Reload
  | LoadDone bool
  | AddTransaction jsval "string option" string string
  | HandleSave jsval
  | PeriodChange period
  | ResetAll

fun isLoadDone :: "event \<Rightarrow> bool" where
  "isLoadDone (LoadDone ok) = True"
| "isLoadDone _ = False"

text \<open>The environment of one event: the clock and the fate of a write.\<close>

record env =
  clock :: int
  put_succeeds :: bool

definition handle :: "runtime \<Rightarrow> env \<Rightarrow> event \<Rightarrow> world \<Rightarrow> outcome" where
  "handle rt ev e w =
     (let st = app w in
      case e of
        Reload \<Rightarrow> \<lparr>next_state = initialState (clock ev), rerender = False, emitted = []\<rparr>
      | LoadDone ok \<Rightarrow>
          (if hydrated st then \<lparr>next_state = st, rerender = False, emitted = []\<rparr>
           else \<lparr>next_state =
                   hydrate rt (clock ev) (if ok then Loaded (storage w) else LoadFailed) st,
                 rerender = True, emitted = []\<rparr>)
      | AddTransaction rawAmount reasonArg newTxnId nowISO \<Rightarrow>
          addTransaction rt newTxnId nowISO rawAmount reasonArg st
      | HandleSave v \<Rightarrow> handleSave rt v st
      | PeriodChange vals \<Rightarrow> onChange (clock ev) vals st
      | ResetAll \<Rightarrow> resetAll (clock ev) st)"

text \<open>
  One event. A reload mounts a fresh provider; the persist effect of the mount finds
  \<open>hydrated\<close> false. After an escaped error nothing is handled until the next reload.
  Otherwise the handler runs, and the persist effect runs when a dependency has changed.
\<close>

definition step :: "runtime \<Rightarrow> env \<Rightarrow> event \<Rightarrow> world \<Rightarrow> world" where
  "step rt ev e w =
     (if e = Reload then
        persist rt (put_succeeds ev)
          (w\<lparr>app := initialState (clock ev), messages := [], crashed := None\<rparr>)
      else if crashed w \<noteq> None then w
      else
        (let out = handle rt ev e w;
             w1 = w\<lparr>app := next_state out, messages := messages w @ emitted out\<rparr>
         in if rerender out then persist rt (put_succeeds ev) w1 else w1))"

fun run :: "runtime \<Rightarrow> (env \<times> event) list \<Rightarrow> world \<Rightarrow> world" where
  "run rt [] w = w"
| "run rt ((ev, e) # rest) w = run rt rest (step rt ev e w)"

text \<open>The first run: a fresh provider over an empty store.\<close>

definition firstRun :: "int \<Rightarrow> world" where
  "firstRun now =
     \<lparr>app = initialState now, messages = [], saves = [], storage = None, crashed = None\<rparr>"

section \<open>The formulas of the specification\<close>






text \<open>
  A raw amount that is zero or not a number: \<open>Number\<close> makes 0 or \<open>NaN\<close> of it.
\<close>

definition zero_or_non_numeric :: "runtime \<Rightarrow> jsval \<Rightarrow> bool" where
  "zero_or_non_numeric rt rawAmount =
     (Number (StringToNumber rt) rawAmount = Fin 0 \<or> Number (StringToNumber rt) rawAmount = NaN)"

text \<open>
  A well-formed transaction: a strictly positive amount and one of the two types. A stored
  record is well formed when the transactions it holds are; the program is, when its log,
  every record it has handed to \<open>saveState\<close> and the record in the store are.
\<close>

definition txn_ok :: "transaction \<Rightarrow> bool" where
  "txn_ok t = (js_gt (amount t) (Fin 0) \<and> (txtype t = ''add'' \<or> txtype t = ''sub''))"

definition saved_ok :: "saved \<Rightarrow> bool" where
  "saved_ok sv = (case saved_transactions sv of None \<Rightarrow> True | Some txs \<Rightarrow> list_all txn_ok txs)"

definition world_ok :: "world \<Rightarrow> bool" where
  "world_ok w =
     (list_all txn_ok (transactions (app w))
      \<and> list_all saved_ok (saves w)
      \<and> (case storage w of None \<Rightarrow> True | Some sv \<Rightarrow> saved_ok sv))"

section \<open>Example inputs\<close>

text \<open>
  A runtime that knows the ISO strings of the first and the last instant of June 2024,
  a session that loads, sets the balance to 1000 and spends 200 on 10 June 2024, a session
  in which the user acts before the load has settled, and the state the first one ends in.
\<close>

definition example_runtime :: runtime where
  "example_runtime =
     \<lparr>StringToNumber = (\<lambda>s. if s = ''12'' then Fin 12 else NaN),
      toISOString = (\<lambda>t. if t = 1717200000000 then ''2024-06-01T00:00:00.000Z''
                          else if t = 1719791999999 then ''2024-06-30T23:59:59.999Z''
                          else ''1970-01-01T00:00:00.000Z''),
      dayjs_of_string = (\<lambda>s. if s = ''2024-06-01T00:00:00.000Z'' then Valid 1717200000000
                              else if s = ''2024-06-30T23:59:59.999Z'' then Valid 1719791999999
                              else if s = ''1970-01-01T00:00:00.000Z'' then Valid 0
                              else Invalid)\<rparr>"

definition example_events :: "(env \<times> event) list" where
  "example_events =
     [(\<lparr>clock = 1717977600000, put_succeeds = True\<rparr>, LoadDone True),
      (\<lparr>clock = 1717977600000, put_succeeds = True\<rparr>, HandleSave (JNum (Fin 1000))),
      (\<lparr>clock = 1717977600000, put_succeeds = True\<rparr>,
         AddTransaction (JNum (Fin (- 200))) (Some ''rent'') ''1-a'' ''2024-06-10T09:00:00.000Z'')]"

definition early_events :: "(env \<times> event) list" where
  "early_events =
     [(\<lparr>clock = 1717977600000, put_succeeds = True\<rparr>, HandleSave (JNum (Fin 1000))),
      (\<lparr>clock = 1717977600000, put_succeeds = True\<rparr>,
         AddTransaction (JNum (Fin (- 200))) (Some ''rent'') ''1-a'' ''2024-06-10T09:00:00.000Z''),
      (\<lparr>clock = 1717977600000, put_succeeds = True\<rparr>, ResetAll)]"


section \<open>Days left in the period\<close>










section \<open>The daily limit\<close>







section \<open>What the handlers leave alone\<close>

lemma abs_positive: "truthy n \<Longrightarrow> js_gt (js_abs n) (Fin 0)"
  by (cases n) auto

lemma onChange_frame:
  "transactions (next_state (onChange now vals st)) = transactions st
   \<and> balance (next_state (onChange now vals st)) = balance st
   \<and> hydrated (next_state (onChange now vals st)) = hydrated st"
  by (simp add: onChange_def split: option.splits prod.splits)

lemma handleSave_frame:
  "transactions (next_state (handleSave rt v st)) = transactions st
   \<and> period (next_state (handleSave rt v st)) = period st
   \<and> hydrated (next_state (handleSave rt v st)) = hydrated st"
  by (simp add: handleSave_def Let_def)

lemma addTransaction_frame:
  "period (next_state (addTransaction rt i d raw reasonArg st)) = period st
   \<and> hydrated (next_state (addTransaction rt i d raw reasonArg st)) = hydrated st"
  by (simp add: addTransaction_def Let_def)

lemma resetAll_frame: "hydrated (next_state (resetAll now st)) = hydrated st"
  by (simp add: resetAll_def)

lemma persist_unhydrated: "\<not> hydrated (app w) \<Longrightarrow> persist rt ok w = w"
  by (simp add: persist_def)


section \<open>Recording a transaction\<close>



lemma addTransaction_noop:
  "\<not> truthy (Number (StringToNumber rt) rawAmount) \<Longrightarrow>
     addTransaction rt newTxnId nowISO rawAmount reasonArg st
       = \<lparr>next_state = st, rerender = False, emitted = []\<rparr>"
  by (simp add: addTransaction_def Let_def)

text \<open>
  C4. When the raw amount is zero or not a number, \<open>addTransaction\<close> does nothing: the
  state is the one before, nothing is rendered again, so the persist effect does not run,
  and nothing is notified; the whole program is as it was.
\<close>

theorem addTransaction_ignores:
  assumes "zero_or_non_numeric rt rawAmount"
  shows "addTransaction rt newTxnId nowISO rawAmount reasonArg st
           = \<lparr>next_state = st, rerender = False, emitted = []\<rparr>
         \<and> step rt ev (AddTransaction rawAmount reasonArg newTxnId nowISO) w = w"
proof -
  from assms have f: "\<not> truthy (Number (StringToNumber rt) rawAmount)"
    by (auto simp: zero_or_non_numeric_def)
  have a: "addTransaction rt newTxnId nowISO rawAmount reasonArg (app w)
           = \<lparr>next_state = app w, rerender = False, emitted = []\<rparr>"
    using f by (rule addTransaction_noop)
  have "step rt ev (AddTransaction rawAmount reasonArg newTxnId nowISO) w = w"
    by (simp add: step_def handle_def a Let_def)
  with f show ?thesis by (simp add: addTransaction_noop)
qed

theorem addTransaction_ignores_witness:
  "zero_or_non_numeric example_runtime (JStr ''abc'')
   \<and> step example_runtime \<lparr>clock = 0, put_succeeds = True\<rparr>
        (AddTransaction (JStr ''abc'') None ''1-a'' ''2024-06-10T09:00:00.000Z'') (firstRun 0)
      = firstRun 0"
proof -
  have z: "zero_or_non_numeric example_runtime (JStr ''abc'')"
    by (simp add: zero_or_non_numeric_def example_runtime_def)
  show ?thesis
    using z addTransaction_ignores [OF z, of "''1-a''" "''2024-06-10T09:00:00.000Z''" None
      "app (firstRun 0)" "\<lparr>clock = 0, put_succeeds = True\<rparr>" "firstRun 0"]
    by simp
qed

text \<open>
  C10. When the balance is still \<open>undefined\<close> and the amount is a nonzero number,
  \<open>addTransaction\<close> does not return early: the transaction is put in front of the log,
  the user is notified, and the balance becomes \<open>NaN\<close>.
\<close>

theorem addTransaction_unset_balance:
  assumes "balance st = None" and "truthy (Number (StringToNumber rt) rawAmount)"
  shows "balance (next_state (addTransaction rt newTxnId nowISO rawAmount reasonArg st)) = Some NaN
         \<and> (\<exists>t. transactions (next_state (addTransaction rt newTxnId nowISO rawAmount reasonArg st))
                   = t # transactions st)
         \<and> rerender (addTransaction rt newTxnId nowISO rawAmount reasonArg st)
         \<and> emitted (addTransaction rt newTxnId nowISO rawAmount reasonArg st) \<noteq> []"
  using assms by (simp add: addTransaction_def Let_def)

theorem addTransaction_unset_balance_witness:
  "balance (initialState 0) = None
   \<and> truthy (Number (StringToNumber example_runtime) (JNum (Fin 500)))
   \<and> balance (next_state (addTransaction example_runtime ''1-a'' ''2024-06-10T09:00:00.000Z''
        (JNum (Fin 500)) (Some ''salary'') (initialState 0))) = Some NaN"
proof -
  have b: "balance (initialState 0) = None" by (simp add: initialState_def)
  have t: "truthy (Number (StringToNumber example_runtime) (JNum (Fin 500)))" by simp
  show ?thesis
    using b t addTransaction_unset_balance [OF b t, of "''1-a''" "''2024-06-10T09:00:00.000Z''" "Some ''salary''"]
    by simp
qed

section \<open>Setting the starting balance\<close>




section \<open>Reset\<close>



section \<open>The transactions that are logged and stored\<close>

lemma addTransaction_log:
  "transactions (next_state (addTransaction rt i d raw reasonArg st)) = transactions st
   \<or> (\<exists>t. transactions (next_state (addTransaction rt i d raw reasonArg st)) = t # transactions st
          \<and> txn_ok t)"
  by (auto simp: addTransaction_def Let_def txn_ok_def abs_positive)

lemma addTransaction_ok:
  "list_all txn_ok (transactions st) \<Longrightarrow>
     list_all txn_ok (transactions (next_state (addTransaction rt i d raw reasonArg st)))"
  using addTransaction_log [of rt i d raw reasonArg st] by auto

lemma hydrate_ok:
  assumes "list_all txn_ok (transactions st)"
      and "case stored of None \<Rightarrow> True | Some sv \<Rightarrow> saved_ok sv"
  shows "list_all txn_ok (transactions (hydrate rt now (if ok then Loaded stored else LoadFailed) st))"
  using assms
  by (auto simp: hydrate_def Let_def saved_ok_def split: option.splits jsval.splits)

lemma handle_ok:
  assumes "world_ok w"
  shows "list_all txn_ok (transactions (next_state (handle rt ev e w)))"
proof (cases e)
  case Reload
  then show ?thesis by (simp add: handle_def initialState_def Let_def)
next
  case (LoadDone ok)
  then show ?thesis
    using assms hydrate_ok [of "app w" "storage w" rt "clock ev" ok]
    by (simp add: handle_def world_ok_def Let_def)
next
  case (AddTransaction raw reasonArg i d)
  then show ?thesis
    using assms by (simp add: handle_def world_ok_def addTransaction_ok Let_def)
next
  case (HandleSave v)
  then show ?thesis
    using assms by (simp add: handle_def world_ok_def handleSave_frame Let_def)
next
  case (PeriodChange vals)
  then show ?thesis
    using assms by (simp add: handle_def world_ok_def onChange_frame Let_def)
next
  case ResetAll
  then show ?thesis by (simp add: handle_def resetAll_def Let_def)
qed

lemma snapshot_ok:
  "list_all txn_ok (transactions st) \<Longrightarrow> snapshot rt st = Inr sv \<Longrightarrow> saved_ok sv"
  by (auto simp: snapshot_def saved_ok_def split: sum.splits)

lemma persist_ok: "world_ok w \<Longrightarrow> world_ok (persist rt ok w)"
  by (auto simp: persist_def world_ok_def dest: snapshot_ok split: sum.splits)

lemma step_ok:
  assumes "world_ok w"
  shows "world_ok (step rt ev e w)"
proof -
  have fresh: "world_ok (w\<lparr>app := initialState (clock ev), messages := [], crashed := None\<rparr>)"
    using assms by (simp add: world_ok_def initialState_def)
  have handled: "world_ok (w\<lparr>app := next_state (handle rt ev e w),
                              messages := messages w @ emitted (handle rt ev e w)\<rparr>)"
    using assms handle_ok [OF assms, of rt ev e] by (simp add: world_ok_def)
  show ?thesis
    using assms fresh handled by (simp add: step_def Let_def persist_ok)
qed

lemma run_ok: "world_ok w \<Longrightarrow> world_ok (run rt evs w)"
  by (induction evs arbitrary: w) (auto simp: step_ok)

lemma firstRun_ok: "world_ok (firstRun now)"
  by (simp add: world_ok_def firstRun_def initialState_def)

lemma example_run:
  "app (run example_runtime example_events (firstRun 1717977600000))
     = \<lparr>balance = Some (Fin 800),
        transactions = [\<lparr>txid = ''1-a'', dateISO = ''2024-06-10T09:00:00.000Z'',
                          txtype = ''sub'', amount = Fin 200, reason = ''rent''\<rparr>],
        period = Some (Some (Valid 1717200000000), Some (Valid 1719791999999)),
        hydrated = True\<rparr>"
  by code_simp

text \<open>
  C5. In every run from the first start over an empty store, through any events and
  reloads, every transaction in the log, in every record handed to \<open>saveState\<close> and in
  the store has a strictly positive amount and the type \<open>"add"\<close> or \<open>"sub"\<close>: the
  amount never carries the direction.
\<close>

theorem transactions_invariant:
  "world_ok (run rt evs (firstRun now))
   \<and> (\<forall>t \<in> set (transactions (app (run rt evs (firstRun now)))).
         js_gt (amount t) (Fin 0) \<and> (txtype t = ''add'' \<or> txtype t = ''sub''))"
proof -
  have ok: "world_ok (run rt evs (firstRun now))"
    by (rule run_ok [OF firstRun_ok])
  then have "list_all txn_ok (transactions (app (run rt evs (firstRun now))))"
    by (simp add: world_ok_def)
  then have "\<forall>t \<in> set (transactions (app (run rt evs (firstRun now)))).
         js_gt (amount t) (Fin 0) \<and> (txtype t = ''add'' \<or> txtype t = ''sub'')"
    by (simp add: list_all_iff txn_ok_def)
  with ok show ?thesis by blast
qed

theorem transactions_invariant_witness:
  "transactions (app (run example_runtime example_events (firstRun 1717977600000))) \<noteq> []
   \<and> list_all txn_ok
         (transactions (app (run example_runtime example_events (firstRun 1717977600000))))"
  using transactions_invariant [of example_runtime example_events 1717977600000]
  by (simp add: example_run txn_ok_def)

section \<open>No save before hydration\<close>

lemma handle_unhydrated:
  assumes "\<not> hydrated (app w)" and "\<not> isLoadDone e"
  shows "\<not> hydrated (next_state (handle rt ev e w))"
proof (cases e)
  case Reload
  then show ?thesis by (simp add: handle_def initialState_def Let_def)
next
  case (LoadDone ok)
  with assms show ?thesis by simp
next
  case (AddTransaction raw reasonArg i d)
  with assms show ?thesis by (simp add: handle_def addTransaction_frame Let_def)
next
  case (HandleSave v)
  with assms show ?thesis by (simp add: handle_def handleSave_frame Let_def)
next
  case (PeriodChange vals)
  with assms show ?thesis by (simp add: handle_def onChange_frame Let_def)
next
  case ResetAll
  with assms show ?thesis by (simp add: handle_def resetAll_frame Let_def)
qed

lemma step_unhydrated:
  assumes "\<not> hydrated (app w)" and "\<not> isLoadDone e"
  shows "\<not> hydrated (app (step rt ev e w))
         \<and> saves (step rt ev e w) = saves w
         \<and> storage (step rt ev e w) = storage w"
proof (cases "e = Reload")
  case True
  then show ?thesis
    by (simp add: step_def persist_unhydrated initialState_def)
next
  case False
  have h: "\<not> hydrated (next_state (handle rt ev e w))"
    using assms by (rule handle_unhydrated)
  show ?thesis
    using False assms(1) h by (simp add: step_def Let_def persist_unhydrated)
qed

lemma run_unhydrated:
  "\<not> hydrated (app w) \<Longrightarrow> \<forall>x \<in> set evs. \<not> isLoadDone (snd x) \<Longrightarrow>
     \<not> hydrated (app (run rt evs w))
     \<and> saves (run rt evs w) = saves w
     \<and> storage (run rt evs w) = storage w"
proof (induction evs arbitrary: w)
  case Nil
  then show ?case by simp
next
  case (Cons x evs)
  obtain ev e where x: "x = (ev, e)" by (cases x)
  from Cons.prems x have e: "\<not> isLoadDone e" by simp
  have s: "\<not> hydrated (app (step rt ev e w))
           \<and> saves (step rt ev e w) = saves w \<and> storage (step rt ev e w) = storage w"
    using Cons.prems(1) e by (rule step_unhydrated)
  from Cons.prems have rest: "\<forall>y \<in> set evs. \<not> isLoadDone (snd y)" by simp
  from s have "\<not> hydrated (app (step rt ev e w))" by simp
  from Cons.IH [OF this rest] s x show ?case by simp
qed

lemma reload_unhydrated:
  "\<not> hydrated (app (step rt ev Reload w))
   \<and> saves (step rt ev Reload w) = saves w \<and> storage (step rt ev Reload w) = storage w"
  by (simp add: step_def persist_unhydrated initialState_def)

text \<open>
  C8. While \<open>loadState()\<close> has not settled, whatever the user does, no call of
  \<open>saveState\<close> is issued and the store keeps its record: from any state that is not
  hydrated, after a reload, and from the first start. The persist effect that fires with
  \<open>hydrated\<close> false returns at once.
\<close>

theorem no_save_before_hydration:
  assumes "\<forall>x \<in> set evs. \<not> isLoadDone (snd x)"
  shows "(\<not> hydrated (app w) \<longrightarrow>
            saves (run rt evs w) = saves w \<and> storage (run rt evs w) = storage w
            \<and> \<not> hydrated (app (run rt evs w)))
         \<and> saves (run rt evs (step rt ev Reload w)) = saves w
         \<and> storage (run rt evs (step rt ev Reload w)) = storage w
         \<and> saves (run rt evs (firstRun now)) = []
         \<and> storage (run rt evs (firstRun now)) = None
         \<and> (\<not> hydrated (app w) \<longrightarrow> persist rt ok w = w)"
proof -
  have first: "\<not> hydrated (app (firstRun now))"
    by (simp add: firstRun_def initialState_def)
  have a: "\<not> hydrated (app w) \<longrightarrow>
            saves (run rt evs w) = saves w \<and> storage (run rt evs w) = storage w
            \<and> \<not> hydrated (app (run rt evs w))"
    using run_unhydrated [OF _ assms, of w rt] by simp
  have b: "saves (run rt evs (step rt ev Reload w)) = saves w
           \<and> storage (run rt evs (step rt ev Reload w)) = storage w"
    using run_unhydrated [OF _ assms, of "step rt ev Reload w" rt] reload_unhydrated [of rt ev w]
    by simp
  have c: "saves (run rt evs (firstRun now)) = [] \<and> storage (run rt evs (firstRun now)) = None"
    using run_unhydrated [OF first assms, of rt] by (simp add: firstRun_def)
  show ?thesis using a b c by (simp add: persist_unhydrated)
qed

theorem no_save_before_hydration_witness:
  "list_all (\<lambda>x. \<not> isLoadDone (snd x)) early_events
   \<and> saves (run example_runtime early_events (firstRun 1717977600000)) = []
   \<and> saves (run example_runtime example_events (firstRun 1717977600000)) \<noteq> []"
proof -
  have h: "\<forall>x \<in> set early_events. \<not> isLoadDone (snd x)"
    by (simp add: early_events_def)
  have later: "saves (run example_runtime example_events (firstRun 1717977600000)) \<noteq> []"
    by code_simp
  have l: "list_all (\<lambda>x. \<not> isLoadDone (snd x)) early_events"
    using h by (simp add: list_all_iff)
  show ?thesis
    using l later no_save_before_hydration [OF h, where rt = example_runtime
        and w = "firstRun 1717977600000" and now = 1717977600000]
    by blast
qed

section \<open>Saving and loading\<close>







end
